theory Spec2Isabelle
  imports Main "HOL-Library.AList"
begin

section \<open>Python values and exceptions\<close>

text \<open>
  The client of \<^verbatim>\<open>connect.py\<close> handles decoded JSON and plain dictionaries. A Python
  value is one of the shapes \<^verbatim>\<open>json()\<close> can produce; \<^verbatim>\<open>None\<close> is \<open>PNone\<close>. A dict is an
  association list in insertion order (its keys are distinct in every dict Python builds);
  floats do not occur in the operations modelled and are left out.
\<close>

datatype pyval =
    PNone
  | PBool bool
  | PInt int
  | PStr string
  | PList "pyval list"
  | PDict "(string \<times> pyval) list"

type_synonym dict = "(string \<times> pyval) list"

text \<open>
  Exceptions are values. \<open>External\<close> is an exception raised inside a collaborator
  (the network, the key file, the JWT encoder, the JSON decoder).
\<close>

datatype py_error =
    KeyError pyval
  | IndexError
  | TypeError
  | AttributeError string
  | UnboundLocalError string
  | OverflowError
  | External string

definition bindE :: "py_error + 'a \<Rightarrow> ('a \<Rightarrow> py_error + 'b) \<Rightarrow> py_error + 'b" where
  "bindE r f = (case r of Inl e \<Rightarrow> Inl e | Inr v \<Rightarrow> f v)"

text \<open>\<^verbatim>\<open>v[k]\<close> for a string key \<^verbatim>\<open>k\<close>.\<close>

fun getitem_str :: "pyval \<Rightarrow> string \<Rightarrow> py_error + pyval" where
  "getitem_str (PDict d) k = (case map_of d k of None \<Rightarrow> Inl (KeyError (PStr k)) | Some v \<Rightarrow> Inr v)"
| "getitem_str _ k = Inl TypeError"

text \<open>\<^verbatim>\<open>v[0]\<close>. A dict decoded from JSON has string keys only, so \<^verbatim>\<open>d[0]\<close> is a KeyError.\<close>

fun getitem_0 :: "pyval \<Rightarrow> py_error + pyval" where
  "getitem_0 (PList []) = Inl IndexError"
| "getitem_0 (PList (x # xs)) = Inr x"
| "getitem_0 (PStr []) = Inl IndexError"
| "getitem_0 (PStr (c # cs)) = Inr (PStr [c])"
| "getitem_0 (PDict d) = Inl (KeyError (PInt 0))"
| "getitem_0 _ = Inl TypeError"

text \<open>\<^verbatim>\<open>"c" in v\<close> for a one-character string \<^verbatim>\<open>"c"\<close> (the source tests \<^verbatim>\<open>"/"\<close> and \<^verbatim>\<open>"?"\<close>).\<close>

fun contains_chr :: "char \<Rightarrow> pyval \<Rightarrow> py_error + bool" where
  "contains_chr c (PStr s) = Inr (c \<in> set s)"
| "contains_chr c (PList xs) = Inr (PStr [c] \<in> set xs)"
| "contains_chr c (PDict d) = Inr ([c] \<in> set (map fst d))"
| "contains_chr c _ = Inl TypeError"

text \<open>Iteration, as \<^verbatim>\<open>enumerate(v)\<close> sees it: a string yields its characters, a dict its keys.\<close>

fun py_iter :: "pyval \<Rightarrow> py_error + pyval list" where
  "py_iter (PList xs) = Inr xs"
| "py_iter (PStr s) = Inr (map (\<lambda>c. PStr [c]) s)"
| "py_iter (PDict d) = Inr (map (\<lambda>kv. PStr (fst kv)) d)"
| "py_iter _ = Inl TypeError"

fun truthy :: "pyval \<Rightarrow> bool" where
  "truthy PNone = False"
| "truthy (PBool b) = b"
| "truthy (PInt i) = (i \<noteq> 0)"
| "truthy (PStr s) = (s \<noteq> [])"
| "truthy (PList xs) = (xs \<noteq> [])"
| "truthy (PDict d) = (d \<noteq> [])"

text \<open>\<^verbatim>\<open>s.split(c)\<close> for a one-character separator: every occurrence cuts.\<close>

fun split_chr :: "char \<Rightarrow> string \<Rightarrow> string list" where
  "split_chr c [] = [[]]"
| "split_chr c (x # xs) =
     (if x = c then [] # split_chr c xs
      else (x # hd (split_chr c xs)) # tl (split_chr c xs))"

text \<open>Decimal rendering of integers, as an f-string prints them.\<close>

definition digit_chr :: "nat \<Rightarrow> char" where
  "digit_chr d = ''0123456789'' ! d"

fun str_nat :: "nat \<Rightarrow> string" where
  "str_nat n =
     (if n < 10 then [digit_chr n]
      else str_nat (n div 10) @ [digit_chr (n mod 10)])"

declare str_nat.simps [simp del]

definition str_int :: "int \<Rightarrow> string" where
  "str_int i = (if i < 0 then CHR ''-'' # str_nat (nat (- i)) else str_nat (nat i))"

section \<open>The world outside the client\<close>

text \<open>
  Everything the client reads from outside or hands to a library is a field of the world
  in which a call runs: the process environment, the private key file, the JWT encoder,
  the HTTP transport and the clock. Three library operations that the code only passes
  values through are fields as well: \<^verbatim>\<open>str()\<close> of a list or dict,
  \<^verbatim>\<open>strftime('%Y-%m-%d')\<close> of a date, and \<^verbatim>\<open>int(d.timestamp())\<close> of a datetime.

  A \<^verbatim>\<open>datetime\<close> is naive: a reading of the local wall clock. It is modelled by the
  number of microseconds since 0001-01-01T00:00:00 on that clock, which is what its
  fields hold. \<open>clock w k\<close> is what the \<open>k\<close>-th call of \<^verbatim>\<open>dt.datetime.now()\<close> returns
  during an operation (counted from 0). \<open>timestamp w d\<close> is \<^verbatim>\<open>int(d.timestamp())\<close>:
  the conversion goes through the local time zone and a float and raises for a datetime
  the platform cannot convert, so it is left to the world.

  A \<^verbatim>\<open>date\<close> is its day number (\<^verbatim>\<open>toordinal()\<close>); \<open>today w\<close> is \<^verbatim>\<open>dt.date.today()\<close>. The
  lower limit of \<^verbatim>\<open>date\<close> is not modelled: the clock does not read a day in the first
  week of year 1.
\<close>

datatype verb = HttpGet | HttpPost

datatype payload = NoPayload | FormData "(string \<times> string) list" | JsonBody pyval

record request =
  req_verb :: verb
  req_url :: string
  req_headers :: "dict option"
  req_payload :: payload

record response =
  status_code :: int
  json :: "py_error + pyval"

record world =
  environ :: "(string \<times> string) list"
  private_key :: "py_error + string"
  jwt_encode :: "pyval \<Rightarrow> string \<Rightarrow> py_error + string"
  http :: "request \<Rightarrow> py_error + response"
  clock :: "nat \<Rightarrow> int"
  timestamp :: "int \<Rightarrow> py_error + int"
  today :: int
  str_container :: "pyval \<Rightarrow> string"
  strftime_ymd :: "int \<Rightarrow> string"

text \<open>\<^verbatim>\<open>os.environ[k]\<close>.\<close>

definition getenv :: "world \<Rightarrow> string \<Rightarrow> py_error + string" where
  "getenv w k = (case map_of (environ w) k of None \<Rightarrow> Inl (KeyError (PStr k)) | Some v \<Rightarrow> Inr v)"

text \<open>\<^verbatim>\<open>str(v)\<close>, which is what an f-string placeholder prints.\<close>

fun py_str :: "world \<Rightarrow> pyval \<Rightarrow> string" where
  "py_str w PNone = ''None''"
| "py_str w (PBool b) = (if b then ''True'' else ''False'')"
| "py_str w (PInt i) = str_int i"
| "py_str w (PStr s) = s"
| "py_str w v = str_container w v"

text \<open>\<^verbatim>\<open>dt.datetime.max\<close>, 9999-12-31T23:59:59.999999: day 3652059 is the last.\<close>

definition datetime_max :: int where
  "datetime_max = 3652059 * 86400000000 - 1"

text \<open>
  \<^verbatim>\<open>d + dt.timedelta(days=1)\<close> on a datetime: exact on the wall clock, OverflowError past
  \<^verbatim>\<open>dt.datetime.max\<close>.
\<close>

definition plus_one_day :: "int \<Rightarrow> py_error + int" where
  "plus_one_day d =
     (if d + 86400000000 \<le> datetime_max then Inr (d + 86400000000) else Inl OverflowError)"

text \<open>
  \<^verbatim>\<open>int((dt.datetime.now() + dt.timedelta(days=1)).timestamp())\<close>, where this call of
  \<^verbatim>\<open>now()\<close> is the \<open>k\<close>-th of the operation.
\<close>

definition tomorrow_timestamp :: "world \<Rightarrow> nat \<Rightarrow> py_error + int" where
  "tomorrow_timestamp w k = bindE (plus_one_day (clock w k)) (timestamp w)"

section \<open>The client\<close>

definition BASE_URL :: string where
  "BASE_URL = ''https://analytics.adobe.io/''"

definition JWT_URL :: string where
  "JWT_URL = ''https://ims-na1.adobelogin.com/ims/exchange/jwt''"

datatype RequestType = GET | POST

text \<open>
  The \<^verbatim>\<open>request_type\<close> argument of \<^verbatim>\<open>make_request\<close> is annotated \<^verbatim>\<open>RequestType\<close>, defaults
  to the string \<^verbatim>\<open>"GET"\<close> and is compared with strings: a caller can pass either kind of
  value. \<^verbatim>\<open>RequestType\<close> is a plain \<^verbatim>\<open>Enum\<close>, so a member is never equal to a string.
\<close>

datatype request_type_arg = Member RequestType | Str string

fun eq_str :: "request_type_arg \<Rightarrow> string \<Rightarrow> bool" where
  "eq_str (Str s) t = (s = t)"
| "eq_str (Member m) t = False"

text \<open>
  An instance of \<^verbatim>\<open>AdobeAnalytics\<close>. An attribute that has not been assigned yet is \<open>None\<close>;
  reading it raises AttributeError. \<open>sent\<close> is not an attribute: it lists, oldest first,
  the requests the instance has issued. Console output is not modelled.
\<close>

record AdobeAnalytics =
  RSID :: "string option"
  ACCESS_TOKEN :: "pyval option"
  BASE_REPORTING_URL :: "string option"
  GLOBAL_CO_ID :: "pyval option"
  global_details :: "pyval option"
  recent_response :: "response option"
  start_date :: "int option"
  end_date :: "int option"
  reporting_suites :: "pyval option"
  sent :: "request list"

definition attr :: "string \<Rightarrow> 'a option \<Rightarrow> py_error + 'a" where
  "attr name v = (case v of None \<Rightarrow> Inl (AttributeError name) | Some x \<Rightarrow> Inr x)"

text \<open>\<^verbatim>\<open>f"{self.RSID}"\<close>: the annotation of \<^verbatim>\<open>rsid\<close> is \<^verbatim>\<open>str\<close>, its default \<^verbatim>\<open>None\<close>.\<close>

fun fmt_rsid :: "string option \<Rightarrow> string" where
  "fmt_rsid None = ''None''"
| "fmt_rsid (Some r) = r"

fun rsid_value :: "string option \<Rightarrow> pyval" where
  "rsid_value None = PNone"
| "rsid_value (Some r) = PStr r"

text \<open>\<^verbatim>\<open>requests.get\<close> / \<^verbatim>\<open>requests.post\<close>: the request goes out, then the transport answers or raises.\<close>

definition send :: "world \<Rightarrow> request \<Rightarrow> AdobeAnalytics \<Rightarrow> (py_error + response) \<times> AdobeAnalytics" where
  "send w rq self = (http w rq, self\<lparr>sent := sent self @ [rq]\<rparr>)"

subsection \<open>\<^verbatim>\<open>_get_access_token_\<close>\<close>

text \<open>
  An Isabelle name cannot start with an underscore: \<^verbatim>\<open>_get_access_token_\<close>,
  \<^verbatim>\<open>_get_global_id_\<close>, \<^verbatim>\<open>_get_metric_names\<close>, \<^verbatim>\<open>__format_date_range__\<close> and \<^verbatim>\<open>__init__\<close>
  appear without their leading and trailing underscores.
\<close>

text \<open>
  The dict literal \<^verbatim>\<open>jwt_payload\<close> (lines 53 to 59); its values are evaluated in the order
  written. \<open>k\<close> says which reading of the clock the \<^verbatim>\<open>now()\<close> of line 54 is.
\<close>

definition jwt_payload :: "world \<Rightarrow> nat \<Rightarrow> py_error + pyval" where
  "jwt_payload w k =
     bindE (tomorrow_timestamp w k) (\<lambda>exp.
     bindE (getenv w ''ORG_ID'') (\<lambda>iss.
     bindE (getenv w ''TECH_ID'') (\<lambda>sub.
     bindE (getenv w ''CLIENT_ID'') (\<lambda>cid.
       Inr (PDict
         [(''exp'', PInt exp),
          (''iss'', PStr iss),
          (''sub'', PStr sub),
          (''https://ims-na1.adobelogin.com/s/ent_analytics_bulk_ingest_sdk'', PBool True),
          (''aud'', PStr (''https://ims-na1.adobelogin.com/c/'' @ cid))])))))"

text \<open>The dict literal \<^verbatim>\<open>access_payload\<close>, given the encoded JWT.\<close>

definition access_payload :: "world \<Rightarrow> string \<Rightarrow> py_error + (string \<times> string) list" where
  "access_payload w encoded_jwt =
     bindE (getenv w ''CLIENT_ID'') (\<lambda>cid.
     bindE (getenv w ''CLIENT_SECRET'') (\<lambda>secret.
       Inr [(''client_id'', cid), (''client_secret'', secret), (''jwt_token'', encoded_jwt)]))"

text \<open>Lines 53 to 71: payload, key, encoding and form, up to the request.\<close>

definition exchange_request :: "world \<Rightarrow> nat \<Rightarrow> py_error + request" where
  "exchange_request w k =
     bindE (jwt_payload w k) (\<lambda>payload.
     bindE (private_key w) (\<lambda>PRIVATE_KEY.
     bindE (jwt_encode w payload PRIVATE_KEY) (\<lambda>encoded_jwt.
     bindE (access_payload w encoded_jwt) (\<lambda>form.
       Inr \<lparr>req_verb = HttpPost, req_url = JWT_URL, req_headers = None,
            req_payload = FormData form\<rparr>))))"

text \<open>
  Lines 44 to 71: everything up to the request. Lines 44 to 49 assign the local
  \<^verbatim>\<open>expiration_date\<close>: without an argument from a first reading of the clock, with one by
  converting the argument. Either can raise, and then nothing else happens. The value
  assigned is never read: the payload takes a reading of the clock of its own.
\<close>

definition access_request :: "world \<Rightarrow> int option \<Rightarrow> py_error + request" where
  "access_request w expiration_date =
     (case expiration_date of
        None \<Rightarrow> bindE (tomorrow_timestamp w 0) (\<lambda>expiration_date'. exchange_request w 1)
      | Some d \<Rightarrow> bindE (timestamp w d) (\<lambda>expiration_date'. exchange_request w 0))"

text \<open>Lines 75 and 76: the token on status 200; otherwise the function ends and returns \<^verbatim>\<open>None\<close>.\<close>

definition token_of_response :: "response \<Rightarrow> py_error + pyval" where
  "token_of_response r =
     (if status_code r = 200
      then bindE (json r) (\<lambda>body. getitem_str body ''access_token'')
      else Inr PNone)"

definition get_access_token :: "world \<Rightarrow> int option \<Rightarrow> AdobeAnalytics \<Rightarrow> (py_error + pyval) \<times> AdobeAnalytics" where
  "get_access_token w expiration_date self =
     (case access_request w expiration_date of
        Inl e \<Rightarrow> (Inl e, self)
      | Inr rq \<Rightarrow>
          (case send w rq self of
             (Inl e, self') \<Rightarrow> (Inl e, self')
           | (Inr access_token_response, self') \<Rightarrow> (token_of_response access_token_response, self')))"

subsection \<open>\<^verbatim>\<open>make_header\<close>\<close>

text \<open>\<^verbatim>\<open>d.update(e)\<close>: the items of \<^verbatim>\<open>e\<close> are stored one after the other.\<close>

definition dict_update :: "dict \<Rightarrow> dict \<Rightarrow> dict" where
  "dict_update d e = fold (\<lambda>kv. AList.update (fst kv) (snd kv)) e d"

definition base_header :: "world \<Rightarrow> pyval \<Rightarrow> string \<Rightarrow> dict" where
  "base_header w token client_id =
     [(''Accept'', PStr ''application/json''),
      (''Authorization'', PStr (''Bearer '' @ py_str w token)),
      (''x-api-key'', PStr client_id)]"

definition make_header :: "world \<Rightarrow> dict option \<Rightarrow> bool \<Rightarrow> AdobeAnalytics \<Rightarrow> py_error + dict" where
  "make_header w additional_header global_id self =
     bindE (attr ''ACCESS_TOKEN'' (ACCESS_TOKEN self)) (\<lambda>token.
     bindE (getenv w ''CLIENT_ID'') (\<lambda>client_id.
       if global_id then Inr (base_header w token client_id)
       else
         bindE (attr ''GLOBAL_CO_ID'' (GLOBAL_CO_ID self)) (\<lambda>co.
           let with_co = AList.update ''x-proxy-global-company-id'' co (base_header w token client_id)
           in Inr (case additional_header of
                     Some extra \<Rightarrow> dict_update with_co extra
                   | None \<Rightarrow> with_co))))"

subsection \<open>\<^verbatim>\<open>make_request\<close>\<close>

text \<open>Lines 136 to 140: the RSID goes on the end of the endpoint.\<close>

definition add_rsid :: "string \<Rightarrow> AdobeAnalytics \<Rightarrow> string" where
  "add_rsid endpoint self =
     (if CHR ''?'' \<in> set endpoint then endpoint @ ''&rsid='' @ fmt_rsid (RSID self)
      else endpoint @ ''?rsid='' @ fmt_rsid (RSID self))"

text \<open>
  Lines 142 to 157 once header and url are known. When neither branch runs, the local
  \<^verbatim>\<open>response\<close> is unbound at \<^verbatim>\<open>return response.json()\<close>.
\<close>

definition dispatch ::
  "world \<Rightarrow> string \<Rightarrow> dict \<Rightarrow> request_type_arg \<Rightarrow> pyval \<Rightarrow> AdobeAnalytics
     \<Rightarrow> (py_error + pyval) \<times> AdobeAnalytics" where
  "dispatch w target request_header request_type post_body self =
     (if eq_str request_type ''GET'' then
        (case send w \<lparr>req_verb = HttpGet, req_url = target,
                      req_headers = Some request_header, req_payload = NoPayload\<rparr> self of
           (Inl e, self') \<Rightarrow> (Inl e, self')
         | (Inr resp, self') \<Rightarrow> (json resp, self'\<lparr>recent_response := Some resp\<rparr>))
      else if eq_str request_type ''POST'' \<and> truthy post_body then
        (case send w \<lparr>req_verb = HttpPost, req_url = target,
                      req_headers = Some request_header, req_payload = JsonBody post_body\<rparr> self of
           (Inl e, self') \<Rightarrow> (Inl e, self')
         | (Inr resp, self') \<Rightarrow> (json resp, self'\<lparr>recent_response := Some resp\<rparr>))
      else (Inl (UnboundLocalError ''response''), self))"

definition make_request ::
  "world \<Rightarrow> string \<Rightarrow> string option \<Rightarrow> dict option \<Rightarrow> request_type_arg \<Rightarrow> pyval
     \<Rightarrow> AdobeAnalytics \<Rightarrow> (py_error + pyval) \<times> AdobeAnalytics" where
  "make_request w endpoint url request_header request_type post_body self =
     (case (case request_header of
              None \<Rightarrow> make_header w None False self
            | Some h \<Rightarrow> Inr h) of
        Inl e \<Rightarrow> (Inl e, self)
      | Inr h \<Rightarrow>
          (case (case url of
                   None \<Rightarrow> attr ''BASE_REPORTING_URL'' (BASE_REPORTING_URL self)
                 | Some u \<Rightarrow> Inr u) of
             Inl e \<Rightarrow> (Inl e, self)
           | Inr u \<Rightarrow> dispatch w (u @ add_rsid endpoint self) h request_type post_body self))"

subsection \<open>\<^verbatim>\<open>_get_global_id_\<close> and \<^verbatim>\<open>__init__\<close>\<close>

text \<open>\<^verbatim>\<open>global_details["imsOrgs"][0]["companies"][0]["globalCompanyId"]\<close>.\<close>

definition company_id_of :: "pyval \<Rightarrow> py_error + pyval" where
  "company_id_of details =
     bindE (getitem_str details ''imsOrgs'') (\<lambda>orgs.
     bindE (getitem_0 orgs) (\<lambda>org.
     bindE (getitem_str org ''companies'') (\<lambda>companies.
     bindE (getitem_0 companies) (\<lambda>company.
       getitem_str company ''globalCompanyId''))))"

definition get_global_id :: "world \<Rightarrow> AdobeAnalytics \<Rightarrow> (py_error + string) \<times> AdobeAnalytics" where
  "get_global_id w self =
     (case make_header w None True self of
        Inl e \<Rightarrow> (Inl e, self)
      | Inr h \<Rightarrow>
          (case make_request w ''discovery/me'' (Some BASE_URL) (Some h) (Str ''GET'') PNone self of
             (Inl e, self') \<Rightarrow> (Inl e, self')
           | (Inr details, self') \<Rightarrow>
               (case company_id_of details of
                  Inl e \<Rightarrow> (Inl e, self'\<lparr>global_details := Some details\<rparr>)
                | Inr co \<Rightarrow>
                    (Inr (''https://analytics.adobe.io/api/'' @ py_str w co @ ''/''),
                     self'\<lparr>global_details := Some details, GLOBAL_CO_ID := Some co\<rparr>))))"

definition new_object :: AdobeAnalytics where
  "new_object =
     \<lparr>RSID = None, ACCESS_TOKEN = None, BASE_REPORTING_URL = None, GLOBAL_CO_ID = None,
      global_details = None, recent_response = None, start_date = None, end_date = None,
      reporting_suites = None, sent = []\<rparr>"

definition init :: "world \<Rightarrow> string option \<Rightarrow> (py_error + unit) \<times> AdobeAnalytics" where
  "init w rsid =
     (case get_access_token w None (new_object\<lparr>RSID := rsid\<rparr>) of
        (Inl e, self1) \<Rightarrow> (Inl e, self1)
      | (Inr token, self1) \<Rightarrow>
          (case get_global_id w (self1\<lparr>ACCESS_TOKEN := Some token\<rparr>) of
             (Inl e, self2) \<Rightarrow> (Inl e, self2)
           | (Inr base, self2) \<Rightarrow> (Inr (), self2\<lparr>BASE_REPORTING_URL := Some base\<rparr>)))"

subsection \<open>Date range\<close>

text \<open>
  The default values of \<^verbatim>\<open>start\<close> and \<^verbatim>\<open>end\<close> are expressions in the \<^verbatim>\<open>def\<close> line. Python
  evaluates them once, when the class body runs, in the world of that moment, and keeps
  the two dates with the function.
\<close>

definition set_date_range_defaults :: "world \<Rightarrow> int \<times> int" where
  "set_date_range_defaults w_def = (today w_def - 7, today w_def)"

definition format_date_range :: "world \<Rightarrow> AdobeAnalytics \<Rightarrow> py_error + string" where
  "format_date_range w self =
     bindE (attr ''start_date'' (start_date self)) (\<lambda>s.
     bindE (attr ''end_date'' (end_date self)) (\<lambda>e.
       Inr (strftime_ymd w s @ ''T00:00:00.000/'' @ strftime_ymd w e @ ''T00:00:00.000'')))"

text \<open>
  \<open>defaults\<close> is the pair kept with the function; an argument that the caller leaves out
  is \<open>None\<close>. \<open>w\<close> is the world at the time of the call.
\<close>

definition set_date_range ::
  "int \<times> int \<Rightarrow> world \<Rightarrow> int option \<Rightarrow> int option \<Rightarrow> AdobeAnalytics
     \<Rightarrow> (py_error + string) \<times> AdobeAnalytics" where
  "set_date_range defaults w start end' self =
     (let self' = self\<lparr>start_date := Some (case start of None \<Rightarrow> fst defaults | Some d \<Rightarrow> d),
                       end_date := Some (case end' of None \<Rightarrow> snd defaults | Some d \<Rightarrow> d)\<rparr>
      in (format_date_range w self', self'))"

subsection \<open>Discovery operations\<close>

definition get_report_suite_id ::
  "world \<Rightarrow> int \<Rightarrow> int \<Rightarrow> AdobeAnalytics \<Rightarrow> (py_error + pyval) \<times> AdobeAnalytics" where
  "get_report_suite_id w limit page self =
     (case make_request w (''/collections/suites?limit='' @ str_int limit @ ''&page='' @ str_int page)
             None None (Str ''GET'') PNone self of
        (Inl e, self') \<Rightarrow> (Inl e, self')
      | (Inr suites, self') \<Rightarrow> (Inr PNone, self'\<lparr>reporting_suites := Some suites\<rparr>))"

definition get_segments ::
  "world \<Rightarrow> int \<Rightarrow> int \<Rightarrow> AdobeAnalytics \<Rightarrow> (py_error + pyval) \<times> AdobeAnalytics" where
  "get_segments w limit page self =
     make_request w (''segments?limit='' @ str_int limit) None None (Str ''GET'') PNone self"

definition get_dimensions ::
  "world \<Rightarrow> int \<Rightarrow> AdobeAnalytics \<Rightarrow> (py_error + pyval) \<times> AdobeAnalytics" where
  "get_dimensions w limit self =
     make_request w (''dimensions?limit='' @ str_int limit) None None (Str ''GET'') PNone self"

definition get_metrics ::
  "world \<Rightarrow> int \<Rightarrow> AdobeAnalytics \<Rightarrow> (py_error + pyval) \<times> AdobeAnalytics" where
  "get_metrics w limit self =
     make_request w (''metrics?limit='' @ str_int limit) None None (Str ''GET'') PNone self"

definition get_projects ::
  "world \<Rightarrow> int \<Rightarrow> int \<Rightarrow> AdobeAnalytics \<Rightarrow> (py_error + pyval) \<times> AdobeAnalytics" where
  "get_projects w limit page self =
     make_request w (''project?&limit='' @ str_int limit @ ''&page='' @ str_int page)
       None None (Str ''GET'') PNone self"

subsection \<open>\<^verbatim>\<open>get_report\<close>\<close>

text \<open>\<^verbatim>\<open>[{"columnId": idx, "id": x} for idx, x in enumerate(metrics_list)]\<close>, from index \<open>idx\<close> on.\<close>

fun metric_entries :: "nat \<Rightarrow> pyval list \<Rightarrow> pyval list" where
  "metric_entries idx [] = []"
| "metric_entries idx (x # xs) =
     PDict [(''columnId'', PInt (int idx)), (''id'', x)] # metric_entries (Suc idx) xs"

text \<open>The dict literal \<^verbatim>\<open>report_body\<close>; its values are evaluated in the order written.\<close>

definition report_body :: "world \<Rightarrow> pyval \<Rightarrow> pyval \<Rightarrow> pyval \<Rightarrow> AdobeAnalytics \<Rightarrow> py_error + pyval" where
  "report_body w metrics_list dimension segment_id self =
     bindE (format_date_range w self) (\<lambda>range.
     bindE (py_iter metrics_list) (\<lambda>ms.
       Inr (PDict
         [(''rsid'', rsid_value (RSID self)),
          (''globalFilters'',
             PList [PDict [(''type'', PStr ''dateRange''),
                           (''dateRange'', PStr range),
                           (''segmentId'', segment_id)]]),
          (''metricContainer'', PDict [(''metrics'', PList (metric_entries 0 ms))]),
          (''dimension'', dimension),
          (''settings'', PDict [(''dimensionSort'', PStr ''asc''), (''limit'', PInt 50000)])])))"

definition get_report ::
  "world \<Rightarrow> pyval \<Rightarrow> pyval \<Rightarrow> pyval \<Rightarrow> AdobeAnalytics \<Rightarrow> (py_error + pyval) \<times> AdobeAnalytics" where
  "get_report w metrics_list dimension segment_id self =
     (case report_body w metrics_list dimension segment_id self of
        Inl e \<Rightarrow> (Inl e, self)
      | Inr body \<Rightarrow> make_request w ''reports'' None None (Str ''POST'') body self)"

subsection \<open>\<^verbatim>\<open>_get_metric_names\<close>\<close>

text \<open>
  One element of the comprehension:
  \<^verbatim>\<open>x["id"].split("/")[1] if "/" in x["id"] else f"{idx}-{x['id']}"\<close>.
\<close>

definition metric_name :: "world \<Rightarrow> nat \<Rightarrow> pyval \<Rightarrow> py_error + string" where
  "metric_name w idx x =
     bindE (getitem_str x ''id'') (\<lambda>ident.
     bindE (contains_chr CHR ''/'' ident) (\<lambda>has_slash.
       if has_slash then
         (case ident of
            PStr s \<Rightarrow>
              (case split_chr CHR ''/'' s of
                 a # b # rest \<Rightarrow> Inr b
               | _ \<Rightarrow> Inl IndexError)
          | _ \<Rightarrow> Inl (AttributeError ''split''))
       else Inr (str_nat idx @ ''-'' @ py_str w ident)))"

fun metric_names_from :: "world \<Rightarrow> nat \<Rightarrow> pyval list \<Rightarrow> py_error + string list" where
  "metric_names_from w idx [] = Inr []"
| "metric_names_from w idx (x # xs) =
     bindE (metric_name w idx x) (\<lambda>name.
     bindE (metric_names_from w (Suc idx) xs) (\<lambda>names. Inr (name # names)))"

definition get_metric_names :: "world \<Rightarrow> pyval \<Rightarrow> py_error + string list" where
  "get_metric_names w json_body =
     bindE (getitem_str json_body ''metricContainer'') (\<lambda>container.
     bindE (getitem_str container ''metrics'') (\<lambda>metrics.
     bindE (py_iter metrics) (\<lambda>ms. metric_names_from w 0 ms)))"

section \<open>Concrete worlds and instances\<close>

text \<open>
  Small closed inputs on which the operations are run below. The encoder prints the \<open>exp\<close>
  claim it is given instead of signing, so that the claim can be read off the request.
  The process runs in UTC: \<open>epoch\<close> is the datetime 1970-01-01T00:00:00, day 719163, and
  \<open>utc_timestamp\<close> counts the whole seconds from there, truncated towards zero. The clock
  starts at \<open>epoch\<close> and every reading is a microsecond later than the one before.
\<close>

definition epoch :: int where
  "epoch = 719162 * 86400000000"

definition utc_timestamp :: "int \<Rightarrow> py_error + int" where
  "utc_timestamp d =
     Inr (if epoch \<le> d then (d - epoch) div 1000000 else - ((epoch - d) div 1000000))"

definition example_environ :: "(string \<times> string) list" where
  "example_environ =
     [(''ORG_ID'', ''org@AdobeOrg''), (''TECH_ID'', ''tech@techacct.adobe.com''),
      (''CLIENT_ID'', ''client-1''), (''CLIENT_SECRET'', ''s3cret'')]"

definition exp_printing_encoder :: "pyval \<Rightarrow> string \<Rightarrow> py_error + string" where
  "exp_printing_encoder payload key =
     bindE (getitem_str payload ''exp'') (\<lambda>e.
       case e of PInt n \<Rightarrow> Inr (''exp='' @ str_int n) | _ \<Rightarrow> Inl (External ''exp''))"

definition example_world :: "(request \<Rightarrow> py_error + response) \<Rightarrow> world" where
  "example_world transport =
     \<lparr>environ = example_environ, private_key = Inr ''KEY'',
      jwt_encode = exp_printing_encoder, http = transport,
      clock = (\<lambda>k. epoch + int k), timestamp = utc_timestamp, today = 738000,
      str_container = (\<lambda>v. ''<container>''), strftime_ymd = str_int\<rparr>"

definition answer :: "int \<Rightarrow> pyval \<Rightarrow> request \<Rightarrow> py_error + response" where
  "answer status body rq = Inr \<lparr>status_code = status, json = Inr body\<rparr>"

definition unauthorized :: "request \<Rightarrow> py_error + response" where
  "unauthorized = answer 401 (PDict [(''error'', PStr ''invalid_token'')])"

definition token_granted :: "request \<Rightarrow> py_error + response" where
  "token_granted =
     answer 200 (PDict [(''token_type'', PStr ''bearer''), (''access_token'', PStr ''tok-1'')])"

definition discovery_ok :: "request \<Rightarrow> py_error + response" where
  "discovery_ok =
     answer 200 (PDict [(''imsOrgs'',
       PList [PDict [(''imsOrgId'', PStr ''org@AdobeOrg''),
                     (''companies'', PList [PDict [(''globalCompanyId'', PStr ''acme01'')]])]])])"

definition discovery_no_companies :: "request \<Rightarrow> py_error + response" where
  "discovery_no_companies =
     answer 200 (PDict [(''imsOrgs'',
       PList [PDict [(''imsOrgId'', PStr ''org@AdobeOrg''), (''companies'', PList [])]])])"

definition empty_answer :: "request \<Rightarrow> py_error + response" where
  "empty_answer = answer 200 (PDict [])"

text \<open>The instance after the token step, and after tenant resolution.\<close>

definition signed_in :: AdobeAnalytics where
  "signed_in = new_object\<lparr>RSID := Some ''rs1'', ACCESS_TOKEN := Some (PStr ''tok-1'')\<rparr>"

definition ready :: AdobeAnalytics where
  "ready = signed_in\<lparr>GLOBAL_CO_ID := Some (PStr ''acme01''),
                     BASE_REPORTING_URL := Some ''https://analytics.adobe.io/api/acme01/''\<rparr>"

definition base_of_acme :: dict where
  "base_of_acme =
     [(''Accept'', PStr ''application/json''),
      (''Authorization'', PStr ''Bearer tok-1''),
      (''x-api-key'', PStr ''client-1'')]"

definition three_metrics :: pyval where
  "three_metrics =
     PDict [(''metricContainer'', PDict [(''metrics'',
       PList [PDict [(''columnId'', PInt 0), (''id'', PStr ''metrics/visits'')],
              PDict [(''columnId'', PInt 1), (''id'', PStr ''metrics/a/b'')],
              PDict [(''columnId'', PInt 2), (''id'', PStr ''customEventNoSlash'')]])])]"

text \<open>The token request built in the example worlds: \<open>exp\<close> is one day after \<open>epoch\<close>.\<close>

definition example_access_request :: request where
  "example_access_request =
     \<lparr>req_verb = HttpPost, req_url = JWT_URL, req_headers = None,
      req_payload = FormData [(''client_id'', ''client-1''), (''client_secret'', ''s3cret''),
                              (''jwt_token'', ''exp=86400'')]\<rparr>"

text \<open>The discovery request of the instance \<open>signed_in\<close>.\<close>

definition example_discovery_request :: request where
  "example_discovery_request =
     \<lparr>req_verb = HttpGet, req_url = ''https://analytics.adobe.io/discovery/me?rsid=rs1'',
      req_headers = Some base_of_acme, req_payload = NoPayload\<rparr>"

text \<open>The headers of the instance \<open>ready\<close>, and \<open>ready\<close> with a date range set.\<close>

definition header_of_acme :: dict where
  "header_of_acme = base_of_acme @ [(''x-proxy-global-company-id'', PStr ''acme01'')]"

definition dated :: AdobeAnalytics where
  "dated = ready\<lparr>start_date := Some 737993, end_date := Some 738000\<rparr>"

section \<open>The specification's reading of a metric name\<close>

text \<open>
  The specification names a metric whose identifier contains \<^verbatim>\<open>/\<close> by ``the substring
  after the first \<^verbatim>\<open>/\<close>''. This definition follows those words, not the code.
\<close>

definition after_first_slash :: "string \<Rightarrow> string" where
  "after_first_slash ident = tl (dropWhile (\<lambda>c. c \<noteq> CHR ''/'') ident)"

section \<open>Evaluation rules\<close>

lemma bindE_Inl [simp]: "bindE (Inl e) f = Inl e"
  by (simp add: bindE_def)

lemma bindE_Inr [simp]: "bindE (Inr v) f = f v"
  by (simp add: bindE_def)

lemmas example_defs =
  example_world_def example_environ_def exp_printing_encoder_def answer_def unauthorized_def
  token_granted_def discovery_ok_def discovery_no_companies_def empty_answer_def
  signed_in_def ready_def new_object_def base_of_acme_def three_metrics_def
  example_access_request_def example_discovery_request_def header_of_acme_def dated_def
  getenv_def attr_def str_int_def str_nat.simps digit_chr_def utc_timestamp_def epoch_def
  plus_one_day_def datetime_max_def JWT_URL_def BASE_URL_def send_def

lemmas token_defs =
  get_access_token_def access_request_def exchange_request_def jwt_payload_def
  tomorrow_timestamp_def access_payload_def token_of_response_def

lemmas request_defs = make_request_def dispatch_def add_rsid_def make_header_def base_header_def

section \<open>Token exchange\<close>

lemma access_request_example: "access_request (example_world t) None = Inr example_access_request"
  by (simp add: token_defs example_defs)

text \<open>
  Claim C1, as the code has it. Once the request has been built and the identity endpoint
  has answered, the request has gone out; on any status other than 200 the call returns
  \<^verbatim>\<open>None\<close> and raises nothing; on status 200 with a JSON object that has an
  \<^verbatim>\<open>access_token\<close> field it returns that field, whatever its value.
\<close>

theorem get_access_token_result:
  assumes "access_request w expiration_date = Inr rq"
      and "http w rq = Inr r"
  shows "sent (snd (get_access_token w expiration_date self)) = sent self @ [rq]
       \<and> (status_code r \<noteq> 200 \<longrightarrow> fst (get_access_token w expiration_date self) = Inr PNone)
       \<and> (\<forall>body token. status_code r = 200 \<and> json r = Inr (PDict body)
              \<and> map_of body ''access_token'' = Some token
            \<longrightarrow> fst (get_access_token w expiration_date self) = Inr token)"
  using assms by (simp add: get_access_token_def send_def token_of_response_def)

text \<open>The theorem at a 401 answer and at a 200 answer.\<close>

theorem get_access_token_result_witness:
  "access_request (example_world unauthorized) None = Inr example_access_request
   \<and> http (example_world unauthorized) example_access_request
       = Inr \<lparr>status_code = 401, json = Inr (PDict [(''error'', PStr ''invalid_token'')])\<rparr>
   \<and> fst (get_access_token (example_world unauthorized) None new_object) = Inr PNone
   \<and> fst (get_access_token (example_world token_granted) None new_object) = Inr (PStr ''tok-1'')"
proof -
  have a: "access_request (example_world t) None = Inr example_access_request" for t
    by (rule access_request_example)
  have u: "http (example_world unauthorized) example_access_request
       = Inr \<lparr>status_code = 401, json = Inr (PDict [(''error'', PStr ''invalid_token'')])\<rparr>"
    by (simp add: example_defs)
  have g: "http (example_world token_granted) example_access_request
       = Inr \<lparr>status_code = 200,
              json = Inr (PDict [(''token_type'', PStr ''bearer''),
                                 (''access_token'', PStr ''tok-1'')])\<rparr>"
    by (simp add: example_defs)
  show ?thesis
    using get_access_token_result [OF a u, of new_object]
          get_access_token_result [OF a g, of new_object] a u
    by simp
qed

text \<open>
  Claim C1 as stated fails: the identity endpoint answers 401, and the call returns
  \<^verbatim>\<open>None\<close> after sending its one request; no exception is raised.
\<close>

theorem get_access_token_401_returns_None:
  "get_access_token (example_world unauthorized) None new_object
     = (Inr PNone, new_object\<lparr>sent := [example_access_request]\<rparr>)"
  by (simp add: token_defs example_defs)

text \<open>
  Claim C6 at a failing input. The clock reads 1970-01-01T00:00:00 and the caller asks
  for an assertion that expires one hour later (timestamp 3600). The request that goes
  out carries \<open>exp=86400\<close>, one day after the call: the override is not used.
\<close>

theorem jwt_exp_ignores_override:
  "timestamp (example_world token_granted) (epoch + 3600000000) = Inr 3600
   \<and> access_request (example_world token_granted) (Some (epoch + 3600000000))
       = Inr example_access_request"
  by (simp add: token_defs example_defs)

text \<open>In every world: two overrides that can be converted give the same request.\<close>

lemma access_request_any_override:
  assumes "timestamp w d1 = Inr t1" and "timestamp w d2 = Inr t2"
  shows "access_request w (Some d1) = access_request w (Some d2)"
  using assms by (simp add: access_request_def)

text \<open>An override that cannot be converted raises before anything is built.\<close>

lemma access_request_override_raises:
  assumes "timestamp w d = Inl e"
  shows "access_request w (Some d) = Inl e"
  using assms by (simp add: access_request_def)

section \<open>Tenant resolution\<close>

lemma example_discovery_header:
  "make_header (example_world t) None True signed_in = Inr base_of_acme"
  by (simp add: request_defs example_defs)

text \<open>
  Claim C2, as the code has it. The discovery request is a GET of
  \<^verbatim>\<open>https://analytics.adobe.io/discovery/me\<close> with the RSID appended and no tenant header.
  When its answer decodes to \<open>details\<close>: an empty \<^verbatim>\<open>imsOrgs\<close> or \<^verbatim>\<open>companies\<close> list raises
  IndexError, a missing \<^verbatim>\<open>imsOrgs\<close> or \<^verbatim>\<open>companies\<close> key raises KeyError, and otherwise
  \<^verbatim>\<open>imsOrgs[0].companies[0].globalCompanyId\<close> is stored as \<^verbatim>\<open>GLOBAL_CO_ID\<close> and the call
  returns \<^verbatim>\<open>https://analytics.adobe.io/api/\<close> followed by that id and \<^verbatim>\<open>/\<close>.
\<close>

theorem get_global_id_result:
  assumes "make_header w None True self = Inr h"
      and "http w \<lparr>req_verb = HttpGet,
                    req_url = BASE_URL @ ''discovery/me?rsid='' @ fmt_rsid (RSID self),
                    req_headers = Some h, req_payload = NoPayload\<rparr> = Inr r"
      and "json r = Inr details"
  shows "(getitem_str details ''imsOrgs'' = Inr (PList [])
            \<longrightarrow> fst (get_global_id w self) = Inl IndexError)
       \<and> (\<forall>org orgs. getitem_str details ''imsOrgs'' = Inr (PList (org # orgs))
              \<and> getitem_str org ''companies'' = Inr (PList [])
            \<longrightarrow> fst (get_global_id w self) = Inl IndexError)
       \<and> (\<forall>d. details = PDict d \<and> map_of d ''imsOrgs'' = None
            \<longrightarrow> fst (get_global_id w self) = Inl (KeyError (PStr ''imsOrgs'')))
       \<and> (\<forall>org orgs d. getitem_str details ''imsOrgs'' = Inr (PList (org # orgs))
              \<and> org = PDict d \<and> map_of d ''companies'' = None
            \<longrightarrow> fst (get_global_id w self) = Inl (KeyError (PStr ''companies'')))
       \<and> (\<forall>org orgs company companies co.
              getitem_str details ''imsOrgs'' = Inr (PList (org # orgs))
              \<and> getitem_str org ''companies'' = Inr (PList (company # companies))
              \<and> getitem_str company ''globalCompanyId'' = Inr co
            \<longrightarrow> fst (get_global_id w self)
                  = Inr (''https://analytics.adobe.io/api/'' @ py_str w co @ ''/'')
                \<and> GLOBAL_CO_ID (snd (get_global_id w self)) = Some co)"
  using assms
  by (simp add: get_global_id_def make_request_def dispatch_def add_rsid_def send_def
      company_id_of_def)

text \<open>The theorem at a well-formed answer, at an empty company list and at an error body.\<close>

theorem get_global_id_result_witness:
  "make_header (example_world discovery_ok) None True signed_in = Inr base_of_acme
   \<and> fst (get_global_id (example_world discovery_ok) signed_in)
       = Inr ''https://analytics.adobe.io/api/acme01/''
   \<and> GLOBAL_CO_ID (snd (get_global_id (example_world discovery_ok) signed_in))
       = Some (PStr ''acme01'')
   \<and> fst (get_global_id (example_world discovery_no_companies) signed_in) = Inl IndexError
   \<and> fst (get_global_id (example_world unauthorized) signed_in)
       = Inl (KeyError (PStr ''imsOrgs''))"
proof -
  have h: "make_header (example_world t) None True signed_in = Inr base_of_acme" for t
    by (rule example_discovery_header)
  have r: "http (example_world (answer st body))
             \<lparr>req_verb = HttpGet,
              req_url = BASE_URL @ ''discovery/me?rsid='' @ fmt_rsid (RSID signed_in),
              req_headers = Some base_of_acme, req_payload = NoPayload\<rparr>
           = Inr \<lparr>status_code = st, json = Inr body\<rparr>" for st body
    by (simp add: example_world_def answer_def)
  have j: "json \<lparr>status_code = st, json = Inr body\<rparr> = Inr body" for st :: int and body
    by simp
  let ?ok = "PDict [(''imsOrgs'',
              PList [PDict [(''imsOrgId'', PStr ''org@AdobeOrg''),
                     (''companies'', PList [PDict [(''globalCompanyId'', PStr ''acme01'')]])]])]"
  let ?none = "PDict [(''imsOrgs'',
              PList [PDict [(''imsOrgId'', PStr ''org@AdobeOrg''), (''companies'', PList [])]])]"
  let ?err = "PDict [(''error'', PStr ''invalid_token'')]"
  show ?thesis
    unfolding discovery_ok_def discovery_no_companies_def unauthorized_def
    using get_global_id_result [OF h r [of 200 ?ok] j [of 200 ?ok]]
          get_global_id_result [OF h r [of 200 ?none] j [of 200 ?none]]
          get_global_id_result [OF h r [of 401 ?err] j [of 401 ?err]]
          h
    by simp
qed

text \<open>
  Claim C2 as stated fails: the discovery answer lists one organisation with no company,
  and tenant resolution ends in the IndexError of \<^verbatim>\<open>companies[0]\<close>, after its one request.
\<close>

theorem get_global_id_empty_companies:
  "get_global_id (example_world discovery_no_companies) signed_in
     = (Inl IndexError,
        signed_in\<lparr>global_details := Some (PDict [(''imsOrgs'',
                      PList [PDict [(''imsOrgId'', PStr ''org@AdobeOrg''),
                                    (''companies'', PList [])]])]),
                  recent_response := Some \<lparr>status_code = 200, json = Inr (PDict [(''imsOrgs'',
                      PList [PDict [(''imsOrgId'', PStr ''org@AdobeOrg''),
                                    (''companies'', PList [])]])])\<rparr>,
                  sent := [example_discovery_request]\<rparr>)"
  by (simp add: get_global_id_def company_id_of_def request_defs example_defs)

text \<open>\<^verbatim>\<open>__init__\<close> stores what \<^verbatim>\<open>_get_global_id_\<close> returns as the base reporting URL.\<close>

lemma init_stores_base_url:
  assumes "get_access_token w None (new_object\<lparr>RSID := rsid\<rparr>) = (Inr token, self1)"
      and "get_global_id w (self1\<lparr>ACCESS_TOKEN := Some token\<rparr>) = (Inr base, self2)"
  shows "init w rsid = (Inr (), self2\<lparr>BASE_REPORTING_URL := Some base\<rparr>)"
  using assms by (simp add: init_def)

section \<open>Headers\<close>

lemma map_of_dict_update:
  "map_of (dict_update d e) k
     = (case map_of (rev e) k of Some v \<Rightarrow> Some v | None \<Rightarrow> map_of d k)"
  unfolding dict_update_def
proof (induction e arbitrary: d)
  case Nil
  show ?case by simp
next
  case (Cons kv e)
  show ?case
    by (simp add: Cons.IH update_conv' map_add_def split: option.splits)
qed

text \<open>
  Claim C9, as the code has it. With a token on the instance and \<^verbatim>\<open>CLIENT_ID\<close> in the
  environment: when \<^verbatim>\<open>global_id\<close> is true the header is exactly Accept, Authorization and
  the API key, with no tenant header, and the additional headers are left out; when
  \<^verbatim>\<open>global_id\<close> is false and the tenant is resolved, every key reads as the additional
  headers give it (the last item for the key) and otherwise as Accept, Authorization, the
  API key or the tenant header.
\<close>

theorem make_header_result:
  assumes "ACCESS_TOKEN self = Some token"
      and "getenv w ''CLIENT_ID'' = Inr client_id"
  shows "(global_id \<longrightarrow>
            make_header w additional_header global_id self
              = Inr [(''Accept'', PStr ''application/json''),
                     (''Authorization'', PStr (''Bearer '' @ py_str w token)),
                     (''x-api-key'', PStr client_id)])
       \<and> (\<forall>co. \<not> global_id \<and> GLOBAL_CO_ID self = Some co \<longrightarrow>
            (\<exists>h. make_header w additional_header global_id self = Inr h
               \<and> (\<forall>k. map_of h k =
                    (case map_of (rev (case additional_header of None \<Rightarrow> [] | Some extra \<Rightarrow> extra)) k of
                       Some v \<Rightarrow> Some v
                     | None \<Rightarrow>
                         if k = ''Accept'' then Some (PStr ''application/json'')
                         else if k = ''Authorization'' then Some (PStr (''Bearer '' @ py_str w token))
                         else if k = ''x-api-key'' then Some (PStr client_id)
                         else if k = ''x-proxy-global-company-id'' then Some co
                         else None))))"
  using assms
  by (simp add: make_header_def base_header_def attr_def map_of_dict_update
      split: option.splits)

text \<open>The theorem on the resolved instance, with an additional header that collides on Accept.\<close>

theorem make_header_result_witness:
  "ACCESS_TOKEN ready = Some (PStr ''tok-1'')
   \<and> getenv (example_world empty_answer) ''CLIENT_ID'' = Inr ''client-1''
   \<and> GLOBAL_CO_ID ready = Some (PStr ''acme01'')
   \<and> make_header (example_world empty_answer) (Some [(''Accept'', PStr ''text/csv'')]) True ready
       = Inr base_of_acme
   \<and> (\<exists>h. make_header (example_world empty_answer) (Some [(''Accept'', PStr ''text/csv'')]) False ready
              = Inr h
          \<and> map_of h ''Accept'' = Some (PStr ''text/csv'')
          \<and> map_of h ''x-proxy-global-company-id'' = Some (PStr ''acme01'')
          \<and> map_of h ''x-api-key'' = Some (PStr ''client-1''))"
proof -
  have t: "ACCESS_TOKEN ready = Some (PStr ''tok-1'')"
    by (simp add: example_defs)
  have c: "getenv (example_world empty_answer) ''CLIENT_ID'' = Inr ''client-1''"
    by (simp add: example_defs)
  have g: "GLOBAL_CO_ID ready = Some (PStr ''acme01'')"
    by (simp add: example_defs)
  show ?thesis
    using make_header_result [OF t c, of True "Some [(''Accept'', PStr ''text/csv'')]"]
          make_header_result [OF t c, of False "Some [(''Accept'', PStr ''text/csv'')]"] t c g
    by (auto simp add: base_of_acme_def)
qed

text \<open>
  Claim C9 as stated fails: with \<^verbatim>\<open>global_id=True\<close> the additional header \<^verbatim>\<open>X-Extra\<close> is
  not merged; the result is the three base headers.
\<close>

theorem make_header_global_id_drops_additional:
  "make_header (example_world empty_answer) (Some [(''X-Extra'', PStr ''1'')]) True ready
     = Inr base_of_acme"
  by (simp add: request_defs example_defs)

section \<open>Requests\<close>

lemma example_tenant_header:
  "make_header (example_world t) None False ready = Inr header_of_acme"
  by (simp add: request_defs example_defs)

text \<open>
  Claim C3 at two failing inputs. Called with the member \<^verbatim>\<open>RequestType.GET\<close>, and with
  \<^verbatim>\<open>RequestType.POST\<close> and a body, \<^verbatim>\<open>make_request\<close> ends in UnboundLocalError and the
  instance is as before: no request has gone out.
\<close>

theorem make_request_enum_member_unbound:
  "make_request (example_world empty_answer) ''metrics?limit=10'' None None (Member GET) PNone ready
     = (Inl (UnboundLocalError ''response''), ready)
   \<and> make_request (example_world empty_answer) ''reports'' None None (Member POST)
       (PDict [(''rsid'', PStr ''rs1'')]) ready
     = (Inl (UnboundLocalError ''response''), ready)"
  by (simp add: request_defs example_defs)

text \<open>The same for every call with a member: an exception, and the instance unchanged.\<close>

lemma make_request_member_never_sends:
  "isl (fst (make_request w endpoint url request_header (Member k) post_body self))
   \<and> snd (make_request w endpoint url request_header (Member k) post_body self) = self"
  by (simp add: make_request_def dispatch_def split: sum.splits option.splits)

text \<open>
  Claim C7, as the code has it. Header and url are given or can be taken from the
  instance. A call with \<^verbatim>\<open>"GET"\<close>, or with \<^verbatim>\<open>"POST"\<close> and a body that is not empty, sends
  exactly one request; its URL is the base url, the endpoint, then \<^verbatim>\<open>&rsid=\<close> if the
  endpoint contains \<^verbatim>\<open>?\<close> and \<^verbatim>\<open>?rsid=\<close> if not, then the RSID of the instance (\<^verbatim>\<open>None\<close>
  when the instance has none). A call with \<^verbatim>\<open>"POST"\<close> and a body that is \<^verbatim>\<open>None\<close> or empty
  sends nothing.
\<close>

theorem make_request_appends_rsid:
  assumes "request_header = Some h \<or> (request_header = None \<and> make_header w None False self = Inr h)"
      and "url = Some u \<or> (url = None \<and> BASE_REPORTING_URL self = Some u)"
  shows "(request_type = Str ''GET'' \<or> (request_type = Str ''POST'' \<and> truthy post_body) \<longrightarrow>
            sent (snd (make_request w endpoint url request_header request_type post_body self))
              = sent self @
                  [\<lparr>req_verb = (if request_type = Str ''GET'' then HttpGet else HttpPost),
                    req_url = u @ endpoint
                                @ (if CHR ''?'' \<in> set endpoint then ''&rsid='' else ''?rsid='')
                                @ (case RSID self of None \<Rightarrow> ''None'' | Some rsid \<Rightarrow> rsid),
                    req_headers = Some h,
                    req_payload = (if request_type = Str ''GET'' then NoPayload
                                   else JsonBody post_body)\<rparr>])
       \<and> (request_type = Str ''POST'' \<and> \<not> truthy post_body \<longrightarrow>
            sent (snd (make_request w endpoint url request_header request_type post_body self))
              = sent self)"
proof -
  have hdr: "(case request_header of None \<Rightarrow> make_header w None False self | Some h \<Rightarrow> Inr h) = Inr h"
    using assms(1) by auto
  have base: "(case url of None \<Rightarrow> attr ''BASE_REPORTING_URL'' (BASE_REPORTING_URL self) | Some u \<Rightarrow> Inr u) = Inr u"
    using assms(2) by (auto simp: attr_def)
  have mr: "make_request w endpoint url request_header request_type post_body self
          = dispatch w (u @ add_rsid endpoint self) h request_type post_body self"
    by (simp add: make_request_def hdr base)
  have rsid: "fmt_rsid (RSID self) = (case RSID self of None \<Rightarrow> ''None'' | Some rsid \<Rightarrow> rsid)"
    by (cases "RSID self") simp_all
  show ?thesis
    unfolding mr
    by (simp add: dispatch_def send_def add_rsid_def rsid split: sum.splits)
qed

text \<open>
  The theorem at a GET whose endpoint has a query string, at a POST whose endpoint has
  none, and at a POST with an empty body.
\<close>

theorem make_request_appends_rsid_witness:
  "make_header (example_world empty_answer) None False ready = Inr header_of_acme
   \<and> BASE_REPORTING_URL ready = Some ''https://analytics.adobe.io/api/acme01/''
   \<and> RSID ready = Some ''rs1''
   \<and> truthy (PDict [(''rsid'', PStr ''rs1'')]) \<and> \<not> truthy (PDict [])
   \<and> sent (snd (make_request (example_world empty_answer) ''metrics?limit=10'' None None
                  (Str ''GET'') PNone ready))
       = [\<lparr>req_verb = HttpGet,
           req_url = ''https://analytics.adobe.io/api/acme01/metrics?limit=10&rsid=rs1'',
           req_headers = Some header_of_acme, req_payload = NoPayload\<rparr>]
   \<and> sent (snd (make_request (example_world empty_answer) ''reports'' None None
                  (Str ''POST'') (PDict [(''rsid'', PStr ''rs1'')]) ready))
       = [\<lparr>req_verb = HttpPost,
           req_url = ''https://analytics.adobe.io/api/acme01/reports?rsid=rs1'',
           req_headers = Some header_of_acme,
           req_payload = JsonBody (PDict [(''rsid'', PStr ''rs1'')])\<rparr>]
   \<and> sent (snd (make_request (example_world empty_answer) ''reports'' None None
                  (Str ''POST'') (PDict []) ready))
       = []"
proof -
  let ?w = "example_world empty_answer"
  let ?u = "''https://analytics.adobe.io/api/acme01/''"
  let ?body = "PDict [(''rsid'', PStr ''rs1'')]"
  have h: "None = Some header_of_acme
           \<or> (None = None \<and> make_header ?w None False ready = Inr header_of_acme)"
    by (simp add: example_tenant_header)
  have u: "None = Some ?u \<or> (None = None \<and> BASE_REPORTING_URL ready = Some ?u)"
    by (simp add: ready_def)
  have r: "RSID ready = Some ''rs1''" and s: "sent ready = []"
    by (simp_all add: ready_def signed_in_def new_object_def)
  show ?thesis
    using make_request_appends_rsid [OF h u, of "Str ''GET''" PNone "''metrics?limit=10''"]
          make_request_appends_rsid [OF h u, of "Str ''POST''" ?body "''reports''"]
          make_request_appends_rsid [OF h u, of "Str ''POST''" "PDict []" "''reports''"]
          h u r s
    by simp
qed

text \<open>
  Claim C7 as stated fails for a POST call with an empty body: it sends no request, so no
  URL with the RSID goes out; the instance is as before.
\<close>

theorem make_request_post_empty_body_sends_nothing:
  "make_request (example_world empty_answer) ''reports'' None None (Str ''POST'') (PDict []) ready
     = (Inl (UnboundLocalError ''response''), ready)"
  by (simp add: request_defs example_defs)

section \<open>Date range\<close>

text \<open>
  Claim C4 at a failing input. The class body ran on day 738000; \<^verbatim>\<open>set_date_range()\<close> is
  called without arguments nine days later, on day 738009. The instance stores 737993 and
  738000, seven days before the day of loading and that day, not 738002 and 738009.
\<close>

theorem set_date_range_defaults_frozen:
  "set_date_range (set_date_range_defaults ((example_world empty_answer)\<lparr>today := 738000\<rparr>))
       ((example_world empty_answer)\<lparr>today := 738009\<rparr>) None None ready
     = (Inr ''737993T00:00:00.000/738000T00:00:00.000'', dated)"
  by (simp add: set_date_range_def set_date_range_defaults_def format_date_range_def example_defs)

text \<open>In every world: the dates stored by default are those of the day of definition.\<close>

lemma set_date_range_stores_defaults:
  "start_date (snd (set_date_range (set_date_range_defaults w_def) w None None self))
     = Some (today w_def - 7)
   \<and> end_date (snd (set_date_range (set_date_range_defaults w_def) w None None self))
     = Some (today w_def)"
  by (simp add: set_date_range_def set_date_range_defaults_def Let_def)

section \<open>Discovery operations\<close>

text \<open>
  Claim C10. \<^verbatim>\<open>get_segments\<close> does not depend on its \<^verbatim>\<open>page\<close> argument: for any two pages
  the call is the same \<^verbatim>\<open>make_request\<close> on the endpoint \<^verbatim>\<open>segments?limit={limit}\<close>, so the
  request sent, the result and the instance afterwards are the same.
\<close>

theorem get_segments_ignores_page:
  "get_segments w limit page1 self = get_segments w limit page2 self
   \<and> get_segments w limit page1 self
       = make_request w (''segments?limit='' @ str_int limit) None None (Str ''GET'') PNone self"
  by (simp add: get_segments_def)

section \<open>Report query\<close>

lemma metric_entries_map:
  "metric_entries idx xs
     = map (\<lambda>i. PDict [(''columnId'', PInt (int (idx + i))), (''id'', xs ! i)]) [0..<length xs]"
proof (induction xs arbitrary: idx)
  case Nil
  show ?case by simp
next
  case (Cons x xs)
  have "[0..<length (x # xs)] = 0 # map Suc [0..<length xs]"
    by (simp add: upt_conv_Cons map_Suc_upt del: upt_Suc)
  then show ?case
    by (simp add: Cons.IH del: upt_Suc)
qed

text \<open>
  Claim C8. Once a date range is set, \<^verbatim>\<open>get_report\<close> on a list of \<open>n\<close> metrics posts a body
  whose \<^verbatim>\<open>metricContainer.metrics\<close> is the list of \<open>n\<close> entries, in input order, whose
  entry at position \<open>i\<close> has \<^verbatim>\<open>columnId\<close> \<open>i\<close> and \<^verbatim>\<open>id\<close> the \<open>i\<close>-th metric.
\<close>

theorem get_report_metrics:
  assumes "start_date self = Some s" and "end_date self = Some e"
  shows "\<exists>body container.
           report_body w (PList ms) dimension segment_id self = Inr body
         \<and> get_report w (PList ms) dimension segment_id self
             = make_request w ''reports'' None None (Str ''POST'') body self
         \<and> getitem_str body ''metricContainer'' = Inr container
         \<and> getitem_str container ''metrics''
             = Inr (PList (map (\<lambda>i. PDict [(''columnId'', PInt (int i)), (''id'', ms ! i)])
                             [0..<length ms]))"
  using assms
  by (simp add: get_report_def report_body_def format_date_range_def attr_def metric_entries_map)

text \<open>The theorem on two metrics.\<close>

theorem get_report_metrics_witness:
  "start_date dated = Some 737993 \<and> end_date dated = Some 738000
   \<and> (\<exists>body container.
         report_body (example_world empty_answer)
           (PList [PStr ''metrics/visits'', PStr ''metrics/revenue'']) (PStr ''variables/page'')
           (PStr ''s1'') dated = Inr body
       \<and> getitem_str body ''metricContainer'' = Inr container
       \<and> getitem_str container ''metrics''
           = Inr (PList [PDict [(''columnId'', PInt 0), (''id'', PStr ''metrics/visits'')],
                         PDict [(''columnId'', PInt 1), (''id'', PStr ''metrics/revenue'')]]))"
proof -
  have s: "start_date dated = Some 737993" and e: "end_date dated = Some 738000"
    by (simp_all add: dated_def)
  show ?thesis
    using get_report_metrics [OF s e, of "example_world empty_answer"
            "[PStr ''metrics/visits'', PStr ''metrics/revenue'']" "PStr ''variables/page''"
            "PStr ''s1''"] s e
    by (auto simp add: upt_rec)
qed

section \<open>Metric names\<close>

lemma split_chr_not_Nil [simp]: "split_chr c s \<noteq> []"
  by (induction s) auto

lemma hd_split_chr: "hd (split_chr c s) = takeWhile (\<lambda>x. x \<noteq> c) s"
  by (induction s) auto

lemma tl_split_chr:
  "c \<in> set s \<Longrightarrow> tl (split_chr c s) = split_chr c (tl (dropWhile (\<lambda>x. x \<noteq> c) s))"
  by (induction s) auto

lemma split_chr_second:
  assumes "c \<in> set s"
  shows "\<exists>a rest. split_chr c s
           = a # takeWhile (\<lambda>x. x \<noteq> c) (tl (dropWhile (\<lambda>x. x \<noteq> c) s)) # rest"
proof -
  let ?t = "tl (dropWhile (\<lambda>x. x \<noteq> c) s)"
  have "split_chr c s = hd (split_chr c s) # tl (split_chr c s)"
    by simp
  moreover have "tl (split_chr c s) = hd (split_chr c ?t) # tl (split_chr c ?t)"
    using assms by (simp add: tl_split_chr)
  ultimately show ?thesis
    by (metis hd_split_chr)
qed

lemma metric_name_of_str:
  assumes "getitem_str x ''id'' = Inr (PStr ident)"
  shows "metric_name w idx x
       = Inr (if CHR ''/'' \<in> set ident
              then takeWhile (\<lambda>c. c \<noteq> CHR ''/'') (after_first_slash ident)
              else str_nat idx @ ''-'' @ ident)"
proof (cases "CHR ''/'' \<in> set ident")
  case True
  from split_chr_second [OF True] obtain a rest where
    "split_chr CHR ''/'' ident
       = a # takeWhile (\<lambda>c. c \<noteq> CHR ''/'') (after_first_slash ident) # rest"
    unfolding after_first_slash_def by blast
  with True assms show ?thesis
    by (simp add: metric_name_def)
next
  case False
  with assms show ?thesis
    by (simp add: metric_name_def)
qed

lemma metric_names_from_strs:
  assumes "list_all2 (\<lambda>m ident. getitem_str m ''id'' = Inr (PStr ident)) ms ids"
  shows "metric_names_from w idx ms
       = Inr (map (\<lambda>(i, ident).
                if CHR ''/'' \<in> set ident
                then takeWhile (\<lambda>c. c \<noteq> CHR ''/'') (after_first_slash ident)
                else str_nat i @ ''-'' @ ident) (enumerate idx ids))"
  using assms
proof (induction ms ids arbitrary: idx rule: list_all2_induct)
  case Nil
  show ?case by simp
next
  case (Cons m ms ident ids)
  then show ?case
    by (simp add: metric_name_of_str)
qed

text \<open>
  Claim C5, as the code has it. For a metric container whose entries have the string
  identifiers \<open>ids\<close>, the names come in input order, one per metric: for an identifier
  that contains \<^verbatim>\<open>/\<close>, what stands after its first \<^verbatim>\<open>/\<close> up to the next \<^verbatim>\<open>/\<close> (all of it when
  there is no second one); for an identifier without \<^verbatim>\<open>/\<close>, \<^verbatim>\<open>"{i}-{id}"\<close>.
\<close>

theorem get_metric_names_result:
  assumes "getitem_str json_body ''metricContainer'' = Inr container"
      and "getitem_str container ''metrics'' = Inr (PList ms)"
      and "list_all2 (\<lambda>m ident. getitem_str m ''id'' = Inr (PStr ident)) ms ids"
  shows "get_metric_names w json_body
       = Inr (map (\<lambda>(i, ident).
                if CHR ''/'' \<in> set ident
                then takeWhile (\<lambda>c. c \<noteq> CHR ''/'') (after_first_slash ident)
                else str_nat i @ ''-'' @ ident) (enumerate 0 ids))"
  using assms by (simp add: get_metric_names_def metric_names_from_strs)

text \<open>The theorem on three metrics: one slash, two slashes, none.\<close>

theorem get_metric_names_result_witness:
  "getitem_str three_metrics ''metricContainer''
     = Inr (PDict [(''metrics'',
         PList [PDict [(''columnId'', PInt 0), (''id'', PStr ''metrics/visits'')],
                PDict [(''columnId'', PInt 1), (''id'', PStr ''metrics/a/b'')],
                PDict [(''columnId'', PInt 2), (''id'', PStr ''customEventNoSlash'')]])])
   \<and> get_metric_names (example_world empty_answer) three_metrics
       = Inr [''visits'', ''a'', ''2-customEventNoSlash'']"
proof -
  let ?ms = "[PDict [(''columnId'', PInt 0), (''id'', PStr ''metrics/visits'')],
              PDict [(''columnId'', PInt 1), (''id'', PStr ''metrics/a/b'')],
              PDict [(''columnId'', PInt 2), (''id'', PStr ''customEventNoSlash'')]]"
  have a: "getitem_str three_metrics ''metricContainer'' = Inr (PDict [(''metrics'', PList ?ms)])"
    by (simp add: three_metrics_def)
  have b: "getitem_str (PDict [(''metrics'', PList ?ms)]) ''metrics'' = Inr (PList ?ms)"
    by simp
  have c: "list_all2 (\<lambda>m ident. getitem_str m ''id'' = Inr (PStr ident)) ?ms
             [''metrics/visits'', ''metrics/a/b'', ''customEventNoSlash'']"
    by simp
  show ?thesis
    using get_metric_names_result [OF a b c, of "example_world empty_answer"] a
    by (simp add: enumerate_eq_zip upt_rec str_nat.simps digit_chr_def after_first_slash_def)
qed

text \<open>
  Claim C5 as stated fails: for the identifier \<^verbatim>\<open>metrics/a/b\<close> the code gives \<^verbatim>\<open>a\<close>, and the
  substring after the first \<^verbatim>\<open>/\<close> is \<^verbatim>\<open>a/b\<close>.
\<close>

theorem get_metric_names_several_slashes:
  "get_metric_names (example_world empty_answer)
     (PDict [(''metricContainer'',
        PDict [(''metrics'', PList [PDict [(''columnId'', PInt 0), (''id'', PStr ''metrics/a/b'')]])])])
     = Inr [''a'']
   \<and> after_first_slash ''metrics/a/b'' = ''a/b''"
  by (simp add: get_metric_names_def metric_name_def after_first_slash_def)

text \<open>With a single \<^verbatim>\<open>/\<close> the two readings agree.\<close>

lemma one_slash_agrees:
  "CHR ''/'' \<notin> set (after_first_slash ident)
     \<Longrightarrow> takeWhile (\<lambda>c. c \<noteq> CHR ''/'') (after_first_slash ident) = after_first_slash ident"
  by auto

end
